theory Spec2Isabelle
  imports Main
begin

section \<open>Data model of the frame registry (src/app/index.js)\<close>

text \<open>
  A frame is addressed by the string \<^verbatim>\<open>`${routingId}-${processId}`\<close>, built from two
  integers of the hosting runtime. Two such strings are equal exactly when both integers
  are, the string is never empty (so it is truthy), and it is never the name of an
  inherited object property nor \<^verbatim>\<open>[object Object]\<close>. The model keeps the pair of integers.
\<close>

type_synonym frame_id = "int \<times> int"

text \<open>
  The numeric fields of a registry record are absent until a parent reports the frame, and
  arithmetic on an absent field yields NaN. Numbers received from a frame are modelled as
  integers.
\<close>

datatype jsnum = Undefined | NaN | Num int

record frame_info =
  f_id :: frame_id
  f_url :: string
  f_x :: jsnum
  f_y :: jsnum
  f_width :: jsnum
  f_height :: jsnum
  f_usableWidth :: jsnum
  f_usableHeight :: jsnum
  f_pagex :: jsnum
  f_pagey :: jsnum
  f_parent :: "frame_id option"
  f_absX :: jsnum
  f_absY :: jsnum

text \<open>\<^verbatim>\<open>const frameInfo = {}\<close>: the registry, keyed by frame id.\<close>

type_synonym registry = "frame_id \<rightharpoonup> frame_info"

record subframe =
  s_url :: string
  s_x :: int
  s_y :: int
  s_width :: int
  s_height :: int

record details =
  d_url :: string
  d_subframes :: "subframe list"
  d_width :: int
  d_height :: int
  d_pagex :: int
  d_pagey :: int

subsection \<open>Truthiness and arithmetic of possibly absent numbers\<close>

text \<open>\<^verbatim>\<open>v || 0\<close> for a number or \<^verbatim>\<open>undefined\<close>: absent, NaN and 0 all give 0.\<close>

fun or0 :: "jsnum \<Rightarrow> int" where
  "or0 (Num n) = n"
| "or0 Undefined = 0"
| "or0 NaN = 0"

text \<open>\<^verbatim>\<open>v + n\<close> and \<^verbatim>\<open>v - n\<close> with \<open>n\<close> a number: \<^verbatim>\<open>undefined\<close> and NaN give NaN.\<close>

fun js_add :: "jsnum \<Rightarrow> int \<Rightarrow> jsnum" where
  "js_add (Num a) n = Num (a + n)"
| "js_add Undefined n = NaN"
| "js_add NaN n = NaN"

fun js_plus :: "jsnum \<Rightarrow> jsnum \<Rightarrow> jsnum" where
  "js_plus (Num a) (Num b) = Num (a + b)"
| "js_plus _ _ = NaN"

fun js_minus :: "jsnum \<Rightarrow> jsnum \<Rightarrow> jsnum" where
  "js_minus (Num a) (Num b) = Num (a - b)"
| "js_minus _ _ = NaN"

text \<open>\<^verbatim>\<open>v < n\<close> and \<^verbatim>\<open>v > n\<close>: every comparison with \<^verbatim>\<open>undefined\<close> or NaN is false.\<close>

fun js_lt :: "jsnum \<Rightarrow> jsnum \<Rightarrow> bool" where
  "js_lt (Num a) (Num b) = (a < b)"
| "js_lt _ _ = False"

fun js_gt :: "jsnum \<Rightarrow> jsnum \<Rightarrow> bool" where
  "js_gt (Num a) (Num b) = (a > b)"
| "js_gt _ _ = False"

fun truthy :: "jsnum \<Rightarrow> bool" where
  "truthy (Num n) = (n \<noteq> 0)"
| "truthy Undefined = False"
| "truthy NaN = False"

section \<open>Frame registry: the \<^verbatim>\<open>frame-details\<close> handler\<close>

text \<open>
  \<^verbatim>\<open>if (!frameInfo[frameId]) { frameInfo[frameId] = {} }\<close> followed by the assignments of
  \<^verbatim>\<open>id\<close> and \<^verbatim>\<open>url\<close>: a fresh record has every other field absent.
\<close>

definition empty_info :: "frame_id \<Rightarrow> string \<Rightarrow> frame_info" where
  "empty_info frameId u =
     \<lparr>f_id = frameId, f_url = u, f_x = Undefined, f_y = Undefined,
      f_width = Undefined, f_height = Undefined,
      f_usableWidth = Undefined, f_usableHeight = Undefined,
      f_pagex = Undefined, f_pagey = Undefined, f_parent = None,
      f_absX = Undefined, f_absY = Undefined\<rparr>"

definition upsert :: "registry \<Rightarrow> frame_id \<Rightarrow> string \<Rightarrow> registry" where
  "upsert reg frameId u =
     (case reg frameId of
        None \<Rightarrow> reg(frameId \<mapsto> empty_info frameId u)
      | Some r \<Rightarrow> reg(frameId \<mapsto> r\<lparr>f_id := frameId, f_url := u\<rparr>))"

text \<open>The body of the innermost \<^verbatim>\<open>if\<close> (lines 1727-1743), on one matched record.\<close>

definition set_geometry :: "subframe \<Rightarrow> details \<Rightarrow> frame_id \<Rightarrow> frame_info \<Rightarrow> frame_info" where
  "set_geometry sub d frameId r =
     (let overflowW = s_x sub + s_width sub - d_width d;
          overflowH = s_y sub + s_height sub - d_height d
      in r\<lparr>f_x := Num (s_x sub),
            f_y := Num (s_y sub),
            f_width := Num (s_width sub),
            f_height := Num (s_height sub),
            f_usableWidth :=
              Num (if overflowW > 0 then s_width sub - overflowW else s_width sub),
            f_usableHeight :=
              Num (if overflowH > 0 then s_height sub - overflowH else s_height sub),
            f_pagex := Num (d_pagex d),
            f_pagey := Num (d_pagey d),
            f_parent := Some frameId\<rparr>)"

text \<open>
  \<^verbatim>\<open>Object.keys(frameInfo).forEach(id => ...)\<close> for one sub-report: each iteration reads
  and writes the record under its own key only, so the loop is a key-wise update.
\<close>

definition match_subframe :: "registry \<Rightarrow> frame_id \<Rightarrow> details \<Rightarrow> subframe \<Rightarrow> registry" where
  "match_subframe reg frameId d sub =
     (\<lambda>id. case reg id of
              None \<Rightarrow> None
            | Some r \<Rightarrow>
                if f_url r = s_url sub \<and> id \<noteq> frameId
                then Some (set_geometry sub d frameId r)
                else Some r)"

text \<open>The handler: upsert the reporter, then \<^verbatim>\<open>details.subframes.forEach\<close>.\<close>

definition frame_details :: "registry \<Rightarrow> frame_id \<Rightarrow> details \<Rightarrow> registry" where
  "frame_details reg frameId d =
     foldl (\<lambda>acc sub. match_subframe acc frameId d sub)
       (upsert reg frameId (d_url d)) (d_subframes d)"

section \<open>Absolute-position resolver: the \<^verbatim>\<open>follow-response\<close> handler\<close>

text \<open>\<^verbatim>\<open>info?.x || 0\<close>, \<^verbatim>\<open>info?.parent\<close> and \<^verbatim>\<open>info?.height\<close> on a record that may be missing.\<close>

definition opt_or0 :: "(frame_info \<Rightarrow> jsnum) \<Rightarrow> frame_info option \<Rightarrow> int" where
  "opt_or0 fld info = (case info of None \<Rightarrow> 0 | Some r \<Rightarrow> or0 (fld r))"

definition opt_parent :: "frame_info option \<Rightarrow> frame_id option" where
  "opt_parent info = (case info of None \<Rightarrow> None | Some r \<Rightarrow> f_parent r)"

definition opt_fld :: "(frame_info \<Rightarrow> jsnum) \<Rightarrow> frame_info option \<Rightarrow> jsnum" where
  "opt_fld fld info = (case info of None \<Rightarrow> Undefined | Some r \<Rightarrow> fld r)"

text \<open>
  The \<^verbatim>\<open>while (parent)\<close> loop of lines 1760-1765. It follows the \<^verbatim>\<open>parent\<close> fields for as
  long as there is one, so on a cyclic registry it does not return: the result \<open>None\<close>.
\<close>

partial_function (option) resolve_loop ::
  "registry \<Rightarrow> frame_id option \<Rightarrow> int \<Rightarrow> int \<Rightarrow> (int \<times> int) option" where
  "resolve_loop reg parent frameX frameY =
     (case parent of
        None \<Rightarrow> Some (frameX, frameY)
      | Some p \<Rightarrow>
          resolve_loop reg (opt_parent (reg p))
            (frameX + opt_or0 f_x (reg p)) (frameY + opt_or0 f_y (reg p)))"

text \<open>Lines 1756-1765: the absolute origin of the reporting frame.\<close>

definition resolveAbsolute :: "registry \<Rightarrow> frame_id \<Rightarrow> (int \<times> int) option" where
  "resolveAbsolute reg frameId =
     resolve_loop reg (opt_parent (reg frameId))
       (opt_or0 f_x (reg frameId)) (opt_or0 f_y (reg frameId))"

text \<open>The parent chain ends: the states on which the loop returns.\<close>

inductive chain_ends :: "registry \<Rightarrow> frame_id option \<Rightarrow> bool" for reg :: registry where
  no_parent: "chain_ends reg None"
| has_parent: "chain_ends reg (opt_parent (reg p)) \<Longrightarrow> chain_ends reg (Some p)"

section \<open>Link aggregator: the \<^verbatim>\<open>follow-response\<close> handler\<close>

text \<open>A link as a frame reports it: its frame-local position and its other fields.\<close>

record raw_link =
  l_x :: int
  l_y :: int
  l_rest :: string

text \<open>An entry of \<^verbatim>\<open>allLinks\<close>: the object literal of lines 1766-1780.\<close>

record link =
  k_rest :: string
  k_frameAbsX :: int
  k_frameAbsY :: int
  k_frameHeight :: jsnum
  k_frameId :: frame_id
  k_frameUsableHeight :: jsnum
  k_frameUsableWidth :: jsnum
  k_frameWidth :: jsnum
  k_frameX :: jsnum
  k_frameY :: jsnum
  k_x :: int
  k_xInFrame :: int
  k_y :: int
  k_yInFrame :: int

definition to_link :: "frame_info option \<Rightarrow> frame_id \<Rightarrow> int \<Rightarrow> int \<Rightarrow> raw_link \<Rightarrow> link" where
  "to_link info frameId frameX frameY l =
     \<lparr>k_rest = l_rest l,
      k_frameAbsX = frameX,
      k_frameAbsY = frameY,
      k_frameHeight = opt_fld f_height info,
      k_frameId = frameId,
      k_frameUsableHeight = opt_fld f_usableHeight info,
      k_frameUsableWidth = opt_fld f_usableWidth info,
      k_frameWidth = opt_fld f_width info,
      k_frameX = opt_fld f_x info,
      k_frameY = opt_fld f_y info,
      k_x = l_x l + frameX,
      k_xInFrame = l_x l,
      k_y = l_y l + frameY,
      k_yInFrame = l_y l\<rparr>"

text \<open>The predicate of the \<^verbatim>\<open>filter\<close> of lines 1781-1787.\<close>

definition in_usable :: "link \<Rightarrow> bool" where
  "in_usable l =
     (if \<not> truthy (k_frameUsableHeight l) \<or> \<not> truthy (k_frameUsableWidth l) then True
      else js_lt (Num (k_yInFrame l)) (k_frameUsableHeight l)
         \<and> js_lt (Num (k_xInFrame l)) (k_frameUsableWidth l))"

definition frameLinks ::
  "frame_info option \<Rightarrow> frame_id \<Rightarrow> int \<Rightarrow> int \<Rightarrow> raw_link list \<Rightarrow> link list" where
  "frameLinks info frameId frameX frameY rawLinks =
     filter in_usable (map (to_link info frameId frameX frameY) rawLinks)"

text \<open>What the handler sends to the main window.\<close>

datatype notice = FollowResponse "link list" | MainError

text \<open>
  The handler, on the registry and the current \<^verbatim>\<open>allLinks\<close>. \<open>live\<close> is the result of
  \<^verbatim>\<open>mainWindow.webContents.mainFrame.framesInSubtree\<close> mapped to ids, \<open>None\<close> when that
  access throws: the \<^verbatim>\<open>catch\<close> then leaves \<^verbatim>\<open>allLinks\<close> as it was. The result is the new
  \<^verbatim>\<open>allLinks\<close> and the message sent; \<open>None\<close> when the resolver does not return.
\<close>

definition follow_response ::
  "registry \<Rightarrow> link list \<Rightarrow> frame_id \<Rightarrow> raw_link list \<Rightarrow> frame_id list option
     \<Rightarrow> (link list \<times> notice) option" where
  "follow_response reg allLinks frameId rawLinks live =
     (case resolveAbsolute reg frameId of
        None \<Rightarrow> None
      | Some (frameX, frameY) \<Rightarrow>
          (case live of
             None \<Rightarrow> Some (allLinks, MainError)
           | Some allFramesIds \<Rightarrow>
               (let merged =
                      filter (\<lambda>l. k_frameId l \<noteq> frameId \<and> k_frameId l \<in> set allFramesIds)
                        allLinks
                      @ frameLinks (reg frameId) frameId frameX frameY rawLinks
                in Some (merged, FollowResponse merged))))"

text \<open>
  The \<^verbatim>\<open>follow-mode-start\<close> handler (lines 1690-1700) on \<^verbatim>\<open>allLinks\<close>. \<open>wc\<close> is the frame
  enumeration of the target, \<open>None\<close> when the enumeration or a send to a frame raises: the
  \<^verbatim>\<open>catch\<close> is then entered before the assignment, and the list stays as it was. Otherwise the
  list is cleared when \<^verbatim>\<open>switchTo\<close> holds.
\<close>

definition follow_mode_start :: "link list \<Rightarrow> frame_id list option \<Rightarrow> bool \<Rightarrow> link list" where
  "follow_mode_start allLinks wc switchTo =
     (case wc of
        None \<Rightarrow> allLinks
      | Some frames \<Rightarrow> if switchTo then [] else allLinks)"

section \<open>Spatial hit-tester: \<^verbatim>\<open>findRelevantSubFrame\<close>\<close>

text \<open>
  \<^verbatim>\<open>frameInfo[parent]\<close> at line 1813, where \<^verbatim>\<open>parent\<close> is a record and not an id: the
  property looked up is the record's conversion to a string, \<^verbatim>\<open>[object Object]\<close>, which is no
  frame id, so nothing is stored under it.
\<close>

definition lookup_by_record :: "registry \<Rightarrow> frame_info \<Rightarrow> frame_info option" where
  "lookup_by_record reg parent = None"

text \<open>The \<^verbatim>\<open>while (parent)\<close> loop of lines 1810-1814, on the running \<^verbatim>\<open>absX\<close>, \<^verbatim>\<open>absY\<close>.\<close>

function abs_loop ::
  "registry \<Rightarrow> frame_info option \<Rightarrow> jsnum \<Rightarrow> jsnum \<Rightarrow> jsnum \<times> jsnum" where
  "abs_loop reg None absX absY = (absX, absY)"
| "abs_loop reg (Some parent) absX absY =
     abs_loop reg (lookup_by_record reg parent)
       (js_add absX (or0 (f_x parent))) (js_add absY (or0 (f_y parent)))"
  by pat_completeness auto
termination
  by (relation "measure (\<lambda>(reg, parent, absX, absY). case parent of None \<Rightarrow> 0 | Some _ \<Rightarrow> 1)")
     (auto simp: lookup_by_record_def)

text \<open>
  The callback of \<^verbatim>\<open>framesInSubtree.map\<close> (lines 1801-1816) on one frame. It writes
  \<^verbatim>\<open>absX\<close> and \<^verbatim>\<open>absY\<close> into the stored record and returns the record itself; the model returns
  the key under which the record is stored, or \<open>None\<close> for \<^verbatim>\<open>null\<close>.
\<close>

definition absolute_frame :: "registry \<Rightarrow> frame_id \<Rightarrow> registry \<times> frame_id option" where
  "absolute_frame reg fid =
     (case reg fid of
        None \<Rightarrow> (reg, None)
      | Some info \<Rightarrow>
          (case f_parent info of
             None \<Rightarrow> (reg, None)
           | Some pid \<Rightarrow>
               (case abs_loop reg (reg pid) (f_x info) (f_y info) of
                  (absX, absY) \<Rightarrow>
                    (reg(fid \<mapsto> info\<lparr>f_absX := absX, f_absY := absY\<rparr>), Some fid))))"

text \<open>\<^verbatim>\<open>framesInSubtree.map(...).filter(f => f)\<close>, threading the registry.\<close>

fun absoluteFrames :: "registry \<Rightarrow> frame_id list \<Rightarrow> registry \<times> frame_id list" where
  "absoluteFrames reg [] = (reg, [])"
| "absoluteFrames reg (f # fs) =
     (case absolute_frame reg f of
        (reg1, r) \<Rightarrow>
          (case absoluteFrames reg1 fs of
             (reg2, rs) \<Rightarrow> (reg2, (case r of None \<Rightarrow> rs | Some i \<Rightarrow> i # rs))))"

text \<open>The two nested tests of lines 1819-1820.\<close>

definition contains_point :: "frame_info \<Rightarrow> int \<Rightarrow> int \<Rightarrow> bool" where
  "contains_point info x y =
     ((js_lt (f_absX info) (Num x) \<and> js_lt (f_absY info) (Num y))
      \<and> (js_gt (js_plus (f_absX info) (f_width info)) (Num x)
         \<and> js_gt (js_plus (f_absY info) (f_height info)) (Num y)))"

text \<open>
  \<^verbatim>\<open>absoluteFrames.forEach\<close> (lines 1818-1831), with \<^verbatim>\<open>relevantFrame\<close> as accumulator. The
  records are read from the registry as the map left it.
\<close>

fun select_frame ::
  "registry \<Rightarrow> frame_id list \<Rightarrow> int \<Rightarrow> int \<Rightarrow> frame_info option \<Rightarrow> frame_info option" where
  "select_frame reg [] x y relevantFrame = relevantFrame"
| "select_frame reg (i # is) x y relevantFrame =
     (case reg i of
        None \<Rightarrow> select_frame reg is x y relevantFrame
      | Some info \<Rightarrow>
          select_frame reg is x y
            (if contains_point info x y then
               (case relevantFrame of
                  Some rel \<Rightarrow> if js_gt (f_width rel) (f_width info) then Some info else Some rel
                | None \<Rightarrow> Some info)
             else relevantFrame))"

text \<open>
  \<^verbatim>\<open>findRelevantSubFrame(wc, x, y)\<close>. \<open>wc\<close> is \<^verbatim>\<open>wc.mainFrame.framesInSubtree\<close> mapped to
  ids, \<open>None\<close> when that access throws (the \<^verbatim>\<open>catch\<close> returns \<^verbatim>\<open>null\<close>). The result is the
  registry after the call and the record returned.
\<close>

definition findRelevantSubFrame ::
  "registry \<Rightarrow> frame_id list option \<Rightarrow> int \<Rightarrow> int \<Rightarrow> registry \<times> frame_info option" where
  "findRelevantSubFrame reg wc x y =
     (case wc of
        None \<Rightarrow> (reg, None)
      | Some frames \<Rightarrow>
          (case absoluteFrames reg frames of
             (reg', ids) \<Rightarrow> (reg', select_frame reg' ids x y None)))"

section \<open>Dispatcher: the \<^verbatim>\<open>action\<close> handler\<close>

datatype error = TypeError

text \<open>
  What a handler does to the outside: \<^verbatim>\<open>frameRef.send("action", actionName, ...)\<close> to one
  frame, or \<^verbatim>\<open>mainWindow.webContents.send("main-error", ...)\<close> from a \<^verbatim>\<open>catch\<close>.
\<close>

datatype effect = FrameSend frame_id string "jsnum list" | ErrorNotice

text \<open>
  \<^verbatim>\<open>opts\<close> is the list of numbers that follow the action name; \<^verbatim>\<open>opts[n]\<close> beyond its end is
  \<^verbatim>\<open>undefined\<close>.
\<close>

definition opt_at :: "int list \<Rightarrow> nat \<Rightarrow> jsnum" where
  "opt_at opts n = (if n < length opts then Num (opts ! n) else Undefined)"

text \<open>
  Lines 1861-1862. With no \<^verbatim>\<open>webContents\<close> of that id, \<^verbatim>\<open>wc.mainFrame\<close> raises outside
  every \<^verbatim>\<open>try\<close>.
\<close>

definition broadcast :: "frame_id list option \<Rightarrow> string \<Rightarrow> int list \<Rightarrow> error + effect list" where
  "broadcast wc actionName opts =
     (case wc of
        None \<Rightarrow> Inl TypeError
      | Some frames \<Rightarrow> Inr (map (\<lambda>f. FrameSend f actionName (map Num opts)) frames))"

text \<open>
  Lines 1843-1857, once the hit-tester has returned \<open>subframe\<close>: the frame whose id is the
  record's \<^verbatim>\<open>id\<close> is looked up (a missing one makes \<^verbatim>\<open>frameRef.send\<close> raise into the
  \<^verbatim>\<open>catch\<close>), then the sends follow in the order of the source.
\<close>

definition send_to_subframe ::
  "frame_id list \<Rightarrow> frame_info \<Rightarrow> string \<Rightarrow> int \<Rightarrow> int \<Rightarrow> int list \<Rightarrow> effect list" where
  "send_to_subframe frames subframe actionName o0 o1 opts =
     (case find (\<lambda>f. f = f_id subframe) frames of
        None \<Rightarrow> [ErrorNotice]
      | Some frameRef \<Rightarrow>
          (if actionName = ''selectionRequest'' then
             [FrameSend frameRef actionName
                [js_minus (Num o0) (f_absX subframe), js_minus (Num o1) (f_absY subframe),
                 js_minus (opt_at opts 2) (f_absX subframe),
                 js_minus (opt_at opts 3) (f_absY subframe)]]
           else [])
          @ [FrameSend frameRef actionName
               ([js_minus (Num o0) (f_absX subframe), js_minus (Num o1) (f_absY subframe)]
                @ map Num (drop 2 opts))])"

text \<open>
  The handler. The test \<^verbatim>\<open>typeof opts[0] === "number" && typeof opts[1] === "number"\<close> is
  that \<open>opts\<close> has two entries at least. The result is the registry after the call and the
  effects in order, or the error that leaves the handler.
\<close>

definition action ::
  "registry \<Rightarrow> frame_id list option \<Rightarrow> string \<Rightarrow> int list
     \<Rightarrow> error + (registry \<times> effect list)" where
  "action reg wc actionName opts =
     (case opts of
        o0 # o1 # rest \<Rightarrow>
          (case findRelevantSubFrame reg wc o0 o1 of
             (reg', Some subframe) \<Rightarrow>
               (case wc of
                  None \<Rightarrow> Inr (reg', [ErrorNotice])
                | Some frames \<Rightarrow>
                    Inr (reg', send_to_subframe frames subframe actionName o0 o1 opts))
           | (reg', None) \<Rightarrow>
               (case broadcast wc actionName opts of
                  Inl e \<Rightarrow> Inl e
                | Inr effs \<Rightarrow> Inr (reg', effs)))
      | _ \<Rightarrow>
          (case broadcast wc actionName opts of
             Inl e \<Rightarrow> Inl e
           | Inr effs \<Rightarrow> Inr (reg, effs)))"

section \<open>Event translator: \<^verbatim>\<open>translateMouseEvent\<close>\<close>

text \<open>
  The event a frame reports: its position, the four optional span coordinates
  (\<open>Undefined\<close> when the property is absent), the frame url and the remaining fields.
\<close>

record click_info =
  c_x :: int
  c_y :: int
  c_startX :: jsnum
  c_startY :: jsnum
  c_endX :: jsnum
  c_endY :: jsnum
  c_frame :: string
  c_rest :: string

text \<open>
  \<^verbatim>\<open>webviewId\<close>: \<^verbatim>\<open>null\<close> when \<^verbatim>\<open>getAllWebContents\<close> raises, \<^verbatim>\<open>undefined\<close> when no
  \<^verbatim>\<open>webContents\<close> matches, its id otherwise.
\<close>

datatype webview_id = WvNull | WvUndefined | WvId int

text \<open>The object returned at lines 1967-1986; \<open>None\<close> in a span field is \<^verbatim>\<open>null\<close>.\<close>

record mouse_event =
  m_rest :: string
  m_endX :: "int option"
  m_endY :: "int option"
  m_frame :: string
  m_frameAbsX :: int
  m_frameAbsY :: int
  m_frameHeight :: jsnum
  m_frameId :: frame_id
  m_frameWidth :: jsnum
  m_frameX :: jsnum
  m_frameY :: jsnum
  m_startX :: "int option"
  m_startY :: "int option"
  m_webviewId :: webview_id
  m_x :: int
  m_xInFrame :: int
  m_y :: int
  m_yInFrame :: int

text \<open>\<^verbatim>\<open>v || null\<close> for a number or NaN.\<close>

fun or_null :: "jsnum \<Rightarrow> int option" where
  "or_null (Num n) = (if n = 0 then None else Some n)"
| "or_null Undefined = None"
| "or_null NaN = None"

text \<open>
  The \<^verbatim>\<open>while (parent)\<close> loop of lines 1942-1948: the loop of the resolver, which also
  tracks the id of the outermost ancestor (\<^verbatim>\<open>parentInfo?.id || frameId\<close>).
\<close>

partial_function (option) translate_loop ::
  "registry \<Rightarrow> frame_id \<Rightarrow> frame_id option \<Rightarrow> int \<Rightarrow> int \<Rightarrow> frame_id
     \<Rightarrow> (int \<times> int \<times> frame_id) option" where
  "translate_loop reg frameId parent frameX frameY parentId =
     (case parent of
        None \<Rightarrow> Some (frameX, frameY, parentId)
      | Some p \<Rightarrow>
          translate_loop reg frameId (opt_parent (reg p))
            (frameX + opt_or0 f_x (reg p)) (frameY + opt_or0 f_y (reg p))
            (case reg p of None \<Rightarrow> frameId | Some parentInfo \<Rightarrow> f_id parentInfo))"

text \<open>
  Lines 1953-1966. Each \<^verbatim>\<open>webContents\<close> is its id and the id of its main frame, \<open>None\<close>
  when reading the main frame raises (the inner \<^verbatim>\<open>catch\<close> returns \<^verbatim>\<open>false\<close>).
\<close>

definition find_webview :: "(int \<times> frame_id option) list option \<Rightarrow> frame_id \<Rightarrow> webview_id" where
  "find_webview allWebContents parentId =
     (case allWebContents of
        None \<Rightarrow> WvNull
      | Some wcs \<Rightarrow>
          (case find (\<lambda>wc. snd wc = Some parentId) wcs of
             None \<Rightarrow> WvUndefined
           | Some wc \<Rightarrow> WvId (fst wc)))"

definition translateMouseEvent ::
  "registry \<Rightarrow> (int \<times> frame_id option) list option \<Rightarrow> frame_id \<Rightarrow> click_info
     \<Rightarrow> mouse_event option" where
  "translateMouseEvent reg allWebContents frameId clickInfo =
     (let info = reg frameId in
      case translate_loop reg frameId (opt_parent info)
             (opt_or0 f_x info) (opt_or0 f_y info) frameId of
        None \<Rightarrow> None
      | Some (frameX, frameY, parentId) \<Rightarrow>
          Some
            \<lparr>m_rest = c_rest clickInfo,
             m_endX = or_null (js_add (c_endX clickInfo) frameX),
             m_endY = or_null (js_add (c_endY clickInfo) frameY),
             m_frame =
               (case info of
                  None \<Rightarrow> c_frame clickInfo
                | Some r \<Rightarrow>
                    if truthy (f_x r) \<and> f_url r \<noteq> [] then f_url r else c_frame clickInfo),
             m_frameAbsX = frameX,
             m_frameAbsY = frameY,
             m_frameHeight = opt_fld f_height info,
             m_frameId = frameId,
             m_frameWidth = opt_fld f_width info,
             m_frameX = opt_fld f_x info,
             m_frameY = opt_fld f_y info,
             m_startX = or_null (js_add (c_startX clickInfo) frameX),
             m_startY = or_null (js_add (c_startY clickInfo) frameY),
             m_webviewId = find_webview allWebContents parentId,
             m_x = c_x clickInfo + frameX,
             m_xInFrame = c_x clickInfo,
             m_y = c_y clickInfo + frameY,
             m_yInFrame = c_y clickInfo\<rparr>)"

section \<open>A page with three levels of nested frames\<close>

text \<open>
  The registry after four reports: the innermost frame, then each enclosing frame naming
  the frame inside it, out to the top-level page. Frame \<open>(2, 1)\<close> sits at \<open>(100, 0)\<close> in the
  page, \<open>(3, 1)\<close> at \<open>(50, 0)\<close> in \<open>(2, 1)\<close>, and \<open>(4, 1)\<close> at \<open>(10, 0)\<close> in \<open>(3, 1)\<close>.
\<close>

definition nested_registry :: registry where
  "nested_registry =
     frame_details
       (frame_details
          (frame_details
             (frame_details Map.empty (4, 1)
                \<lparr>d_url = ''c'', d_subframes = [], d_width = 30, d_height = 30,
                 d_pagex = 0, d_pagey = 0\<rparr>)
             (3, 1)
             \<lparr>d_url = ''b'',
              d_subframes = [\<lparr>s_url = ''c'', s_x = 10, s_y = 0, s_width = 30, s_height = 30\<rparr>],
              d_width = 300, d_height = 300, d_pagex = 0, d_pagey = 0\<rparr>)
          (2, 1)
          \<lparr>d_url = ''a'',
           d_subframes = [\<lparr>s_url = ''b'', s_x = 50, s_y = 0, s_width = 300, s_height = 300\<rparr>],
           d_width = 500, d_height = 400, d_pagex = 0, d_pagey = 0\<rparr>)
       (1, 1)
       \<lparr>d_url = ''top'',
        d_subframes = [\<lparr>s_url = ''a'', s_x = 100, s_y = 0, s_width = 500, s_height = 400\<rparr>],
        d_width = 800, d_height = 600, d_pagex = 0, d_pagey = 0\<rparr>"

definition nested_frames :: "frame_id list" where
  "nested_frames = [(1, 1), (2, 1), (3, 1), (4, 1)]"

text \<open>
  A child frame of size \<open>300 \<times> 200\<close> at \<open>(100, 50)\<close>, reported by a page whose viewport is
  only \<open>350\<close> wide: the child overflows it by \<open>50\<close>.
\<close>

definition clipped_registry :: registry where
  "clipped_registry =
     frame_details
       (frame_details Map.empty (2, 1)
          \<lparr>d_url = ''child'', d_subframes = [], d_width = 300, d_height = 200,
           d_pagex = 0, d_pagey = 0\<rparr>)
       (1, 1)
       \<lparr>d_url = ''top'',
        d_subframes =
          [\<lparr>s_url = ''child'', s_x = 100, s_y = 50, s_width = 300, s_height = 200\<rparr>],
        d_width = 350, d_height = 600, d_pagex = 0, d_pagey = 0\<rparr>"

text \<open>
  The record \<open>r\<close> carries the geometry that the sub-report \<open>sub\<close> of the report \<open>d\<close> assigns
  at lines 1729-1740.
\<close>

definition reported_by :: "details \<Rightarrow> subframe \<Rightarrow> frame_info \<Rightarrow> bool" where
  "reported_by d sub r \<longleftrightarrow>
     s_url sub = f_url r
     \<and> f_width r = Num (s_width sub) \<and> f_height r = Num (s_height sub)
     \<and> f_usableWidth r =
         Num (if 0 < s_x sub + s_width sub - d_width d
              then s_width sub - (s_x sub + s_width sub - d_width d) else s_width sub)
     \<and> f_usableHeight r =
         Num (if 0 < s_y sub + s_height sub - d_height d
              then s_height sub - (s_y sub + s_height sub - d_height d) else s_height sub)"

text \<open>
  Two sibling frames of equal width whose reported rectangles overlap.
\<close>

definition sibling_registry :: registry where
  "sibling_registry =
     frame_details
       (frame_details
          (frame_details Map.empty (2, 1)
             \<lparr>d_url = ''left'', d_subframes = [], d_width = 300, d_height = 200,
              d_pagex = 0, d_pagey = 0\<rparr>)
          (3, 1)
          \<lparr>d_url = ''right'', d_subframes = [], d_width = 300, d_height = 200,
           d_pagex = 0, d_pagey = 0\<rparr>)
       (1, 1)
       \<lparr>d_url = ''top'',
        d_subframes =
          [\<lparr>s_url = ''left'', s_x = 100, s_y = 50, s_width = 300, s_height = 200\<rparr>,
           \<lparr>s_url = ''right'', s_x = 120, s_y = 50, s_width = 300, s_height = 200\<rparr>],
        d_width = 800, d_height = 600, d_pagex = 0, d_pagey = 0\<rparr>"

definition sibling_frames :: "frame_id list" where
  "sibling_frames = [(1, 1), (2, 1), (3, 1)]"

section \<open>Vocabulary of the statements about the hit-tester\<close>

text \<open>
  The registry in which every frame of \<open>S\<close> that has a record with a parent carries the
  \<^verbatim>\<open>absX\<close>, \<^verbatim>\<open>absY\<close> that lines 1807-1814 compute for it in \<open>reg\<close>.
\<close>

definition written :: "registry \<Rightarrow> frame_id set \<Rightarrow> registry" where
  "written reg S =
     (\<lambda>fid. case reg fid of
               None \<Rightarrow> None
             | Some info \<Rightarrow>
                 (case f_parent info of
                    None \<Rightarrow> Some info
                  | Some pid \<Rightarrow>
                      if fid \<in> S
                      then Some (info\<lparr>f_absX := fst (abs_loop reg (reg pid) (f_x info) (f_y info)),
                                      f_absY := snd (abs_loop reg (reg pid) (f_x info) (f_y info))\<rparr>)
                      else Some info))"

text \<open>The test \<^verbatim>\<open>info?.parent\<close> of line 1804 on the frame \<open>fid\<close>.\<close>

definition has_parent :: "registry \<Rightarrow> frame_id \<Rightarrow> bool" where
  "has_parent reg fid = (case reg fid of None \<Rightarrow> False | Some info \<Rightarrow> f_parent info \<noteq> None)"

text \<open>
  The records of \<open>ids\<close>, in order, that pass the code's own tests of lines 1819-1820 for
  the point. The tests read the \<^verbatim>\<open>absX\<close>, \<^verbatim>\<open>absY\<close> that the hit-tester stored, which are not
  the window-absolute origin of a frame nested deeper than two levels; these are the frames the
  loop chooses among, not the frames that contain the point.
\<close>

definition stored_candidates ::
  "registry \<Rightarrow> frame_id list \<Rightarrow> int \<Rightarrow> int \<Rightarrow> frame_info list" where
  "stored_candidates reg ids x y = filter (\<lambda>info. contains_point info x y) (List.map_filter reg ids)"

text \<open>The loop of lines 1818-1831 on the records that pass its tests.\<close>

fun narrowest :: "frame_info option \<Rightarrow> frame_info list \<Rightarrow> frame_info option" where
  "narrowest relevantFrame [] = relevantFrame"
| "narrowest relevantFrame (info # cs) =
     narrowest
       (case relevantFrame of
          Some rel \<Rightarrow> if js_gt (f_width rel) (f_width info) then Some info else Some rel
        | None \<Rightarrow> Some info) cs"

section \<open>The usable rectangle in the words of the specification\<close>

text \<open>
  Following the specification (4.5): a frame-local position falls outside the frame's usable
  rectangle, the rectangle of the usable width and height with its corner at the frame's
  origin.
\<close>

definition spec_outside_usable :: "int \<Rightarrow> int \<Rightarrow> int \<Rightarrow> int \<Rightarrow> bool" where
  "spec_outside_usable usableWidth usableHeight lx ly \<longleftrightarrow>
     \<not> (0 \<le> lx \<and> lx < usableWidth \<and> 0 \<le> ly \<and> ly < usableHeight)"

section \<open>Candidates in the words of the specification\<close>

text \<open>
  Following the specification (4.3): a frame is a candidate if the point lies strictly
  inside its absolute bounds, the bounds being the origin that the absolute-position resolver
  (4.2) returns for the frame together with the record's width and height.
\<close>

definition spec_candidate :: "registry \<Rightarrow> frame_id \<Rightarrow> int \<Rightarrow> int \<Rightarrow> bool" where
  "spec_candidate reg fid x y =
     (case resolveAbsolute reg fid of
        None \<Rightarrow> False
      | Some (absX, absY) \<Rightarrow>
          (case reg fid of
             None \<Rightarrow> False
           | Some info \<Rightarrow>
               (case f_width info of
                  Num w \<Rightarrow>
                    (case f_height info of
                       Num h \<Rightarrow> absX < x \<and> x < absX + w \<and> absY < y \<and> y < absY + h
                     | _ \<Rightarrow> False)
                | _ \<Rightarrow> False)))"

section \<open>The example registries, evaluated\<close>

lemma nested_4: "nested_registry (4, 1) = Some
   \<lparr>f_id = (4, 1), f_url = ''c'', f_x = Num 10, f_y = Num 0, f_width = Num 30, f_height = Num 30,
    f_usableWidth = Num 30, f_usableHeight = Num 30, f_pagex = Num 0, f_pagey = Num 0,
    f_parent = Some (3, 1), f_absX = Undefined, f_absY = Undefined\<rparr>"
  by (simp add: nested_registry_def frame_details_def upsert_def match_subframe_def
        set_geometry_def empty_info_def)

lemma nested_3: "nested_registry (3, 1) = Some
   \<lparr>f_id = (3, 1), f_url = ''b'', f_x = Num 50, f_y = Num 0, f_width = Num 300, f_height = Num 300,
    f_usableWidth = Num 300, f_usableHeight = Num 300, f_pagex = Num 0, f_pagey = Num 0,
    f_parent = Some (2, 1), f_absX = Undefined, f_absY = Undefined\<rparr>"
  by (simp add: nested_registry_def frame_details_def upsert_def match_subframe_def
        set_geometry_def empty_info_def)

lemma nested_2: "nested_registry (2, 1) = Some
   \<lparr>f_id = (2, 1), f_url = ''a'', f_x = Num 100, f_y = Num 0, f_width = Num 500, f_height = Num 400,
    f_usableWidth = Num 500, f_usableHeight = Num 400, f_pagex = Num 0, f_pagey = Num 0,
    f_parent = Some (1, 1), f_absX = Undefined, f_absY = Undefined\<rparr>"
  by (simp add: nested_registry_def frame_details_def upsert_def match_subframe_def
        set_geometry_def empty_info_def)

lemma nested_1: "nested_registry (1, 1) = Some (empty_info (1, 1) ''top'')"
  by (simp add: nested_registry_def frame_details_def upsert_def match_subframe_def
        set_geometry_def empty_info_def)

lemma clipped_child: "clipped_registry (2, 1) = Some
   \<lparr>f_id = (2, 1), f_url = ''child'', f_x = Num 100, f_y = Num 50,
    f_width = Num 300, f_height = Num 200,
    f_usableWidth = Num 250, f_usableHeight = Num 200, f_pagex = Num 0, f_pagey = Num 0,
    f_parent = Some (1, 1), f_absX = Undefined, f_absY = Undefined\<rparr>"
  by (simp add: clipped_registry_def frame_details_def upsert_def match_subframe_def
        set_geometry_def empty_info_def)

section \<open>The resolver\<close>

lemma resolve_loop_None: "resolve_loop reg None a b = Some (a, b)"
  by (simp add: resolve_loop.simps)

lemma resolve_loop_Some:
  "resolve_loop reg (Some p) a b =
     resolve_loop reg (opt_parent (reg p)) (a + opt_or0 f_x (reg p)) (b + opt_or0 f_y (reg p))"
  by (subst resolve_loop.simps) simp

lemma resolve_loop_shift_Some:
  "resolve_loop reg parent a b = Some r \<Longrightarrow>
     resolve_loop reg parent (a + dx) (b + dy) = Some (fst r + dx, snd r + dy)"
proof (induction reg parent a b r rule: resolve_loop.raw_induct[rotated, consumes 1])
  case (1 resolve_loop' reg parent a b r)
  show ?case
  proof (cases parent)
    case None
    with 1(2) show ?thesis by (auto simp: resolve_loop_None)
  next
    case (Some p)
    with 1(2) have "resolve_loop' reg (opt_parent (reg p)) (a + opt_or0 f_x (reg p)) (b + opt_or0 f_y (reg p)) = Some r"
      by simp
    then have "resolve_loop reg (opt_parent (reg p)) (a + opt_or0 f_x (reg p) + dx) (b + opt_or0 f_y (reg p) + dy) = Some (fst r + dx, snd r + dy)"
      by (rule 1(1))
    then show ?thesis using Some by (simp add: resolve_loop_Some ac_simps)
  qed
qed

lemma resolve_loop_shift:
  "resolve_loop reg parent (a + dx) (b + dy) =
     map_option (\<lambda>(u, v). (u + dx, v + dy)) (resolve_loop reg parent a b)"
proof (cases "resolve_loop reg parent a b")
  case (Some r)
  then show ?thesis using resolve_loop_shift_Some[OF Some, of dx dy] by (simp add: case_prod_beta)
next
  case None
  show ?thesis
  proof (cases "resolve_loop reg parent (a + dx) (b + dy)")
    case None': None
    with None show ?thesis by simp
  next
    case (Some r)
    from resolve_loop_shift_Some[OF Some, of "- dx" "- dy"] None show ?thesis by simp
  qed
qed

lemma chain_ends_returns:
  "chain_ends reg parent \<Longrightarrow> \<exists>r. resolve_loop reg parent a b = Some r"
  by (induction parent arbitrary: a b rule: chain_ends.induct)
     (simp_all add: resolve_loop_None resolve_loop_Some)

lemma resolveAbsolute_returns:
  "chain_ends reg (opt_parent (reg frameId)) \<Longrightarrow> \<exists>r. resolveAbsolute reg frameId = Some r"
  unfolding resolveAbsolute_def by (rule chain_ends_returns)

lemma resolveAbsolute_unregistered: "reg frameId = None \<Longrightarrow> resolveAbsolute reg frameId = Some (0, 0)"
  by (simp add: resolveAbsolute_def opt_parent_def opt_or0_def resolve_loop_None)

lemma nested_resolve_3: "resolveAbsolute nested_registry (3, 1) = Some (150, 0)"
  by (simp add: resolveAbsolute_def nested_3 nested_2 nested_1 opt_parent_def opt_or0_def
        resolve_loop_None resolve_loop_Some empty_info_def)

lemma nested_resolve_4: "resolveAbsolute nested_registry (4, 1) = Some (160, 0)"
  by (simp add: resolveAbsolute_def nested_4 nested_3 nested_2 nested_1 opt_parent_def opt_or0_def
        resolve_loop_None resolve_loop_Some empty_info_def)

text \<open>
  C4. A record \<open>R\<close> stored under \<open>rid\<close> whose parent is \<open>P\<close> resolves to the resolution of \<open>P\<close>
  plus the local origin of \<open>R\<close> (an absent coordinate counting as 0), and it returns exactly
  when the resolution of \<open>P\<close> does. With no parent, or with a parent that has no record, it
  returns the local origin of \<open>R\<close>: the missing segment adds \<open>(0, 0)\<close>.
\<close>

theorem resolveAbsolute_parent_step:
  assumes "reg rid = Some R"
  shows "(\<forall>P. f_parent R = Some P \<longrightarrow>
            resolveAbsolute reg rid =
              map_option (\<lambda>(px, py). (px + or0 (f_x R), py + or0 (f_y R))) (resolveAbsolute reg P))
       \<and> (f_parent R = None \<longrightarrow> resolveAbsolute reg rid = Some (or0 (f_x R), or0 (f_y R)))
       \<and> (\<forall>P. f_parent R = Some P \<longrightarrow> reg P = None \<longrightarrow>
            resolveAbsolute reg rid = Some (or0 (f_x R), or0 (f_y R)))"
proof (intro conjI allI impI)
  fix P assume P: "f_parent R = Some P"
  have "resolveAbsolute reg rid =
          resolve_loop reg (opt_parent (reg P))
            (opt_or0 f_x (reg P) + or0 (f_x R)) (opt_or0 f_y (reg P) + or0 (f_y R))"
    using assms P by (simp add: resolveAbsolute_def opt_parent_def opt_or0_def resolve_loop_Some ac_simps)
  also have "\<dots> = map_option (\<lambda>(px, py). (px + or0 (f_x R), py + or0 (f_y R)))
                     (resolve_loop reg (opt_parent (reg P)) (opt_or0 f_x (reg P)) (opt_or0 f_y (reg P)))"
    by (rule resolve_loop_shift)
  finally show "resolveAbsolute reg rid =
      map_option (\<lambda>(px, py). (px + or0 (f_x R), py + or0 (f_y R))) (resolveAbsolute reg P)"
    by (simp add: resolveAbsolute_def)
next
  assume "f_parent R = None"
  with assms show "resolveAbsolute reg rid = Some (or0 (f_x R), or0 (f_y R))"
    by (simp add: resolveAbsolute_def opt_parent_def opt_or0_def resolve_loop_None)
next
  fix P assume "f_parent R = Some P" "reg P = None"
  with assms show "resolveAbsolute reg rid = Some (or0 (f_x R), or0 (f_y R))"
    by (simp add: resolveAbsolute_def opt_parent_def opt_or0_def resolve_loop_None resolve_loop_Some)
qed

theorem resolveAbsolute_parent_step_witness:
  "resolveAbsolute nested_registry (3, 1) = Some (150, 0)
   \<and> resolveAbsolute nested_registry (4, 1) = Some (150 + 10, 0 + 0)
   \<and> resolveAbsolute nested_registry (1, 1) = Some (0, 0)
   \<and> resolveAbsolute (Map.empty((4, 1) \<mapsto> empty_info (4, 1) ''c''\<lparr>f_x := Num 10, f_y := Num 0,
          f_parent := Some (3, 1)\<rparr>)) (4, 1) = Some (10, 0)"
proof -
  have a: "resolveAbsolute nested_registry (4, 1) = Some (150 + 10, 0 + 0)"
    using resolveAbsolute_parent_step[of nested_registry "(4, 1)", OF nested_4] nested_resolve_3
    by simp
  have b: "resolveAbsolute nested_registry (1, 1) = Some (0, 0)"
    using resolveAbsolute_parent_step[of nested_registry "(1, 1)", OF nested_1]
    by (simp add: empty_info_def)
  have c: "resolveAbsolute (Map.empty((4, 1) \<mapsto> empty_info (4, 1) ''c''\<lparr>f_x := Num 10, f_y := Num 0,
          f_parent := Some (3, 1)\<rparr>)) (4, 1) = Some (10, 0)"
    using resolveAbsolute_parent_step[of "Map.empty((4, 1) \<mapsto> empty_info (4, 1) ''c''\<lparr>f_x := Num 10,
          f_y := Num 0, f_parent := Some (3, 1)\<rparr>)" "(4, 1)"]
    by (simp add: empty_info_def resolveAbsolute_unregistered)
  from a b c nested_resolve_3 show ?thesis by blast
qed

section \<open>Usable dimensions\<close>

lemma match_subframe_lookup:
  "match_subframe reg frameId d sub fid =
     (case reg fid of None \<Rightarrow> None
      | Some r \<Rightarrow> if f_url r = s_url sub \<and> fid \<noteq> frameId
                  then Some (set_geometry sub d frameId r) else Some r)"
  by (simp add: match_subframe_def)

lemma set_geometry_fields:
  "f_url (set_geometry sub d frameId r) = f_url r"
  "f_width (set_geometry sub d frameId r) = Num (s_width sub)"
  "f_height (set_geometry sub d frameId r) = Num (s_height sub)"
  "f_usableWidth (set_geometry sub d frameId r) =
     Num (if 0 < s_x sub + s_width sub - d_width d
          then s_width sub - (s_x sub + s_width sub - d_width d) else s_width sub)"
  "f_usableHeight (set_geometry sub d frameId r) =
     Num (if 0 < s_y sub + s_height sub - d_height d
          then s_height sub - (s_y sub + s_height sub - d_height d) else s_height sub)"
  by (simp_all add: set_geometry_def Let_def)

lemma fold_subframes_last_match:
  assumes "foldl (\<lambda>acc sub. match_subframe acc frameId d sub) reg0 subs fid = Some r'"
    and "fid \<noteq> frameId" and "\<exists>sub \<in> set subs. s_url sub = f_url r'"
  shows "\<exists>sub \<in> set subs. reported_by d sub r'"
  using assms
proof (induction subs arbitrary: r' rule: rev_induct)
  case Nil
  then show ?case by simp
next
  case (snoc s subs)
  let ?m = "foldl (\<lambda>acc sub. match_subframe acc frameId d sub) reg0 subs"
  from snoc.prems(1) have step: "match_subframe ?m frameId d s fid = Some r'" by simp
  then obtain r0 where r0: "?m fid = Some r0"
    by (auto simp: match_subframe_lookup split: option.splits)
  show ?case
  proof (cases "f_url r0 = s_url s")
    case True
    with step r0 snoc.prems(2) have "r' = set_geometry s d frameId r0"
      by (simp add: match_subframe_lookup)
    with True have "reported_by d s r'"
      by (simp add: reported_by_def set_geometry_fields)
    then show ?thesis by auto
  next
    case False
    with step r0 have eq: "r' = r0" by (simp add: match_subframe_lookup)
    with False snoc.prems(3) have "\<exists>sub \<in> set subs. s_url sub = f_url r'" by auto
    from snoc.IH[OF r0[folded eq] snoc.prems(2) this] show ?thesis by auto
  qed
qed

text \<open>
  C6. A record that a report has matched (it is not the reporter's own, and a sub-report
  names its url) holds a width and height and usable width and height, the usable ones at
  most the full ones; they come from one sub-report of the report: the usable dimension is
  the full one minus the overflow past the reporter's viewport when that overflow is
  positive, and the full one otherwise.
\<close>

theorem usable_within_full:
  assumes "frame_details reg frameId d fid = Some r'"
    and "fid \<noteq> frameId"
    and "\<exists>sub \<in> set (d_subframes d). s_url sub = f_url r'"
  shows "\<exists>w h uw uh.
           f_width r' = Num w \<and> f_height r' = Num h
         \<and> f_usableWidth r' = Num uw \<and> f_usableHeight r' = Num uh
         \<and> uw \<le> w \<and> uh \<le> h
         \<and> (\<exists>sub \<in> set (d_subframes d).
               s_url sub = f_url r' \<and> w = s_width sub \<and> h = s_height sub
             \<and> uw = (if 0 < s_x sub + w - d_width d then w - (s_x sub + w - d_width d) else w)
             \<and> uh = (if 0 < s_y sub + h - d_height d then h - (s_y sub + h - d_height d) else h))"
proof -
  from fold_subframes_last_match[OF assms(1)[unfolded frame_details_def] assms(2,3)]
  obtain sub where sub: "sub \<in> set (d_subframes d)" "reported_by d sub r'" by blast
  show ?thesis
  proof (intro exI conjI bexI[of _ sub])
    show "f_width r' = Num (s_width sub)" using sub(2) by (simp add: reported_by_def)
    show "f_height r' = Num (s_height sub)" using sub(2) by (simp add: reported_by_def)
    show "f_usableWidth r' = Num (if 0 < s_x sub + s_width sub - d_width d
              then s_width sub - (s_x sub + s_width sub - d_width d) else s_width sub)"
      using sub(2) by (simp add: reported_by_def)
    show "f_usableHeight r' = Num (if 0 < s_y sub + s_height sub - d_height d
              then s_height sub - (s_y sub + s_height sub - d_height d) else s_height sub)"
      using sub(2) by (simp add: reported_by_def)
    show "s_url sub = f_url r'" using sub(2) by (simp add: reported_by_def)
  qed (use sub(1) in simp_all)
qed

theorem usable_within_full_witness:
  "\<exists>r'. clipped_registry (2, 1) = Some r' \<and> f_url r' = ''child''
       \<and> f_width r' = Num 300 \<and> f_usableWidth r' = Num 250
       \<and> f_height r' = Num 200 \<and> f_usableHeight r' = Num 200"
proof -
  let ?d = "\<lparr>d_url = ''top'',
        d_subframes =
          [\<lparr>s_url = ''child'', s_x = 100, s_y = 50, s_width = 300, s_height = 200\<rparr>],
        d_width = 350, d_height = 600, d_pagex = 0, d_pagey = 0\<rparr>"
  let ?reg = "frame_details Map.empty (2, 1)
          \<lparr>d_url = ''child'', d_subframes = [], d_width = 300, d_height = 200,
           d_pagex = 0, d_pagey = 0\<rparr>"
  obtain r' where r': "frame_details ?reg (1, 1) ?d (2, 1) = Some r'" "f_url r' = ''child''"
    using clipped_child by (simp add: clipped_registry_def)
  have "(2, 1) \<noteq> ((1, 1) :: frame_id)" by simp
  moreover have "\<exists>sub \<in> set (d_subframes ?d). s_url sub = f_url r'" using r'(2) by simp
  ultimately show ?thesis
    using usable_within_full[of ?reg "(1, 1)" ?d "(2, 1)" r', OF r'(1)] r'
    by (auto simp: clipped_registry_def)
qed

section \<open>The hit-tester: what it writes\<close>

lemma abs_loop_closed:
  "abs_loop reg parent a b =
     (case parent of None \<Rightarrow> (a, b)
      | Some p \<Rightarrow> (js_add a (or0 (f_x p)), js_add b (or0 (f_y p))))"
  by (cases parent) (simp_all add: lookup_by_record_def)

lemma absolute_frame_written: "fst (absolute_frame reg f) = written reg {f}"
  by (rule ext) (auto simp add: absolute_frame_def written_def split: option.splits prod.splits)

lemma absolute_frame_id:
  "snd (absolute_frame reg f) = (if has_parent reg f then Some f else None)"
  by (simp add: absolute_frame_def has_parent_def split: option.splits prod.splits)

lemma written_lookup_xy:
  "map_option f_x (written reg S k) = map_option f_x (reg k)"
  "map_option f_y (written reg S k) = map_option f_y (reg k)"
  "map_option f_parent (written reg S k) = map_option f_parent (reg k)"
  by (simp_all add: written_def split: option.splits)

lemma abs_loop_written:
  "abs_loop (written reg S) (written reg S pid) a b = abs_loop reg (reg pid) a b"
  using written_lookup_xy(1,2)[of reg S pid]
  by (auto simp: abs_loop_closed split: option.splits)

lemma written_written: "written (written reg S) T = written reg (S \<union> T)"
proof (rule ext)
  fix fid
  show "written (written reg S) T fid = written reg (S \<union> T) fid"
  proof (cases "reg fid")
    case None
    then show ?thesis by (simp add: written_def)
  next
    case (Some info)
    show ?thesis
    proof (cases "f_parent info")
      case None
      with Some show ?thesis by (simp add: written_def)
    next
      case (Some pid)
      have "abs_loop (written reg S) (written reg S pid) (f_x info) (f_y info)
              = abs_loop reg (reg pid) (f_x info) (f_y info)"
        by (rule abs_loop_written)
      then show ?thesis
        using Some \<open>reg fid = Some info\<close>
        unfolding written_def[of "written reg S" T]
        by (simp add: written_def[of reg])
    qed
  qed
qed

lemma has_parent_written: "has_parent (written reg S) = has_parent reg"
  by (rule ext) (simp add: has_parent_def written_def split: option.splits)

lemma absoluteFrames_written:
  "absoluteFrames reg fs = (written reg (set fs), filter (has_parent reg) fs)"
proof (induction fs arbitrary: reg)
  case Nil
  have "written reg {} = reg"
    by (rule ext) (simp add: written_def split: option.splits)
  then show ?case by simp
next
  case (Cons f fs)
  have af: "absolute_frame reg f = (written reg {f}, if has_parent reg f then Some f else None)"
    using absolute_frame_written[of reg f] absolute_frame_id[of reg f]
    by (cases "absolute_frame reg f") simp
  have hp: "filter (has_parent (written reg {f})) fs = filter (has_parent reg) fs"
    by (simp add: has_parent_written)
  show ?case
    by (simp add: af Cons.IH written_written hp)
qed

lemma findRelevantSubFrame_written:
  "findRelevantSubFrame reg (Some frames) x y =
     (written reg (set frames),
      select_frame (written reg (set frames)) (filter (has_parent reg) frames) x y None)"
  by (simp add: findRelevantSubFrame_def absoluteFrames_written)

section \<open>The hit-tester: which frame it returns\<close>

lemma contains_point_bounds:
  assumes "contains_point info x y"
  shows "\<exists>a b w h. f_absX info = Num a \<and> f_absY info = Num b
           \<and> f_width info = Num w \<and> f_height info = Num h
           \<and> a < x \<and> x < a + w \<and> b < y \<and> y < b + h"
proof -
  from assms obtain a where a: "f_absX info = Num a" "a < x"
    by (cases "f_absX info") (auto simp: contains_point_def)
  from assms obtain b where b: "f_absY info = Num b" "b < y"
    by (cases "f_absY info") (auto simp: contains_point_def)
  from assms a obtain w where w: "f_width info = Num w" "x < a + w"
    by (cases "f_width info") (auto simp: contains_point_def)
  from assms b obtain h where h: "f_height info = Num h" "y < b + h"
    by (cases "f_height info") (auto simp: contains_point_def)
  from a b w h show ?thesis by blast
qed

lemma select_frame_narrowest:
  "select_frame reg ids x y acc = narrowest acc (stored_candidates reg ids x y)"
  by (induction ids arbitrary: acc)
     (auto simp: stored_candidates_def List.map_filter_simps split: option.splits)

lemma narrowest_from:
  assumes "\<forall>c \<in> set (rel0 # cs). \<exists>v. f_width c = Num v"
  shows "\<exists>pre r post w. rel0 # cs = pre @ r # post \<and> narrowest (Some rel0) cs = Some r
           \<and> f_width r = Num w
           \<and> (\<forall>p \<in> set pre. \<exists>v. f_width p = Num v \<and> w < v)
           \<and> (\<forall>q \<in> set post. \<exists>v. f_width q = Num v \<and> w \<le> v)"
  using assms
proof (induction cs arbitrary: rel0)
  case Nil
  then obtain w0 where w0: "f_width rel0 = Num w0" by auto
  have a: "[rel0] = [] @ rel0 # []" by simp
  have b: "narrowest (Some rel0) [] = Some rel0" by simp
  have c: "\<forall>p \<in> set []. \<exists>v. f_width p = Num v \<and> w0 < v" by simp
  have d: "\<forall>q \<in> set []. \<exists>v. f_width q = Num v \<and> w0 \<le> v" by simp
  from a b w0 c d show ?case
    by - (rule exI[of _ "[]"], rule exI[of _ rel0], rule exI[of _ "[]"], rule exI[of _ w0],
          (intro conjI; assumption))
next
  case (Cons c cs)
  from Cons.prems obtain w0 wc where w0: "f_width rel0 = Num w0" and wc: "f_width c = Num wc"
    by auto
  from Cons.prems have rest: "\<forall>k \<in> set cs. \<exists>v. f_width k = Num v" by simp
  show ?case
  proof (cases "wc < w0")
    case True
    then have step: "narrowest (Some rel0) (c # cs) = narrowest (Some c) cs"
      by (simp add: w0 wc)
    from rest wc have "\<forall>k \<in> set (c # cs). \<exists>v. f_width k = Num v" by simp
    from Cons.IH[OF this] obtain pre r post w where
      IH: "c # cs = pre @ r # post" "narrowest (Some c) cs = Some r" "f_width r = Num w"
          "\<forall>p \<in> set pre. \<exists>v. f_width p = Num v \<and> w < v"
          "\<forall>q \<in> set post. \<exists>v. f_width q = Num v \<and> w \<le> v"
      by blast
    have "w \<le> wc"
    proof (cases pre)
      case Nil
      with IH(1) have "r = c" by simp
      with IH(3) wc show ?thesis by simp
    next
      case (Cons p pre')
      with IH(1) have "c \<in> set pre" by simp
      with IH(4) wc show ?thesis by fastforce
    qed
    with True have "w < w0" by simp
    with w0 IH(4) have pre': "\<forall>p \<in> set (rel0 # pre). \<exists>v. f_width p = Num v \<and> w < v" by simp
    have split: "rel0 # c # cs = (rel0 # pre) @ r # post" using IH(1) by simp
    have res: "narrowest (Some rel0) (c # cs) = Some r" by (simp only: step IH(2))
    from split res IH(3) pre' IH(5) show ?thesis
      by - (rule exI[of _ "rel0 # pre"], rule exI[of _ r], rule exI[of _ post],
            rule exI[of _ w], (intro conjI; assumption))
  next
    case False
    then have step: "narrowest (Some rel0) (c # cs) = narrowest (Some rel0) cs"
      by (simp add: w0 wc)
    from rest w0 have "\<forall>k \<in> set (rel0 # cs). \<exists>v. f_width k = Num v" by simp
    from Cons.IH[OF this] obtain pre r post w where
      IH: "rel0 # cs = pre @ r # post" "narrowest (Some rel0) cs = Some r" "f_width r = Num w"
          "\<forall>p \<in> set pre. \<exists>v. f_width p = Num v \<and> w < v"
          "\<forall>q \<in> set post. \<exists>v. f_width q = Num v \<and> w \<le> v"
      by blast
    have res: "narrowest (Some rel0) (c # cs) = Some r" by (simp only: step IH(2))
    show ?thesis
    proof (cases pre)
      case Nil
      with IH(1) have eq: "r = rel0" "post = cs" by simp_all
      with IH(3) w0 have "w = w0" by simp
      with False wc IH(5) eq
      have post': "\<forall>q \<in> set (c # cs). \<exists>v. f_width q = Num v \<and> w \<le> v" by simp
      have split: "rel0 # c # cs = [] @ r # (c # cs)" using eq by simp
      have pre0: "\<forall>p \<in> set []. \<exists>v. f_width p = Num v \<and> w < v" by simp
      from split res IH(3) pre0 post' show ?thesis
        by - (rule exI[of _ "[]"], rule exI[of _ r], rule exI[of _ "c # cs"],
              rule exI[of _ w], (intro conjI; assumption))
    next
      case (Cons p pre')
      with IH(1) have eq: "p = rel0" "cs = pre' @ r # post" by simp_all
      with Cons IH(4) w0 have "w < w0" by fastforce
      with False wc Cons eq IH(4)
      have pre2: "\<forall>p \<in> set (rel0 # c # pre'). \<exists>v. f_width p = Num v \<and> w < v" by simp
      have split: "rel0 # c # cs = (rel0 # c # pre') @ r # post" using eq by simp
      from split res IH(3) pre2 IH(5) show ?thesis
        by - (rule exI[of _ "rel0 # c # pre'"], rule exI[of _ r], rule exI[of _ post],
              rule exI[of _ w], (intro conjI; assumption))
    qed
  qed
qed

lemma stored_candidates_widths:
  "\<forall>c \<in> set (stored_candidates reg ids x y). \<exists>v. f_width c = Num v"
  using contains_point_bounds by (fastforce simp: stored_candidates_def)

lemma hit_stored_bounds:
  assumes "findRelevantSubFrame reg wc x y = (reg', Some rel)"
  shows "\<exists>a b w h. f_absX rel = Num a \<and> f_absY rel = Num b
           \<and> f_width rel = Num w \<and> f_height rel = Num h
           \<and> a < x \<and> x < a + w \<and> b < y \<and> y < b + h"
proof -
  from assms obtain frames where wc: "wc = Some frames"
    by (cases wc) (auto simp: findRelevantSubFrame_def)
  let ?cs = "stored_candidates reg' (snd (absoluteFrames reg frames)) x y"
  from assms wc have res: "Some rel = narrowest None ?cs"
    by (auto simp add: findRelevantSubFrame_written absoluteFrames_written select_frame_narrowest)
  then obtain c cs where cs: "?cs = c # cs" by (cases ?cs) auto
  have "\<forall>k \<in> set (c # cs). \<exists>v. f_width k = Num v"
    using stored_candidates_widths[of reg' "snd (absoluteFrames reg frames)" x y] cs by simp
  from narrowest_from[OF this] obtain pre r post where
    split: "c # cs = pre @ r # post" and r: "narrowest (Some c) cs = Some r" by blast
  from res cs r have "rel = r" by simp
  moreover from split have "r \<in> set (c # cs)" by simp
  ultimately have "rel \<in> set ?cs" using cs by simp
  then have "contains_point rel x y" by (simp add: stored_candidates_def)
  then show ?thesis by (rule contains_point_bounds)
qed

section \<open>The nested page, hit-tested\<close>

lemma sibling_1: "sibling_registry (1, 1) = Some (empty_info (1, 1) ''top'')"
  by (simp add: sibling_registry_def frame_details_def upsert_def match_subframe_def
        set_geometry_def empty_info_def)

lemma sibling_2: "sibling_registry (2, 1) = Some
   \<lparr>f_id = (2, 1), f_url = ''left'', f_x = Num 100, f_y = Num 50,
    f_width = Num 300, f_height = Num 200,
    f_usableWidth = Num 300, f_usableHeight = Num 200, f_pagex = Num 0, f_pagey = Num 0,
    f_parent = Some (1, 1), f_absX = Undefined, f_absY = Undefined\<rparr>"
  by (simp add: sibling_registry_def frame_details_def upsert_def match_subframe_def
        set_geometry_def empty_info_def)

lemma sibling_3: "sibling_registry (3, 1) = Some
   \<lparr>f_id = (3, 1), f_url = ''right'', f_x = Num 120, f_y = Num 50,
    f_width = Num 300, f_height = Num 200,
    f_usableWidth = Num 300, f_usableHeight = Num 200, f_pagex = Num 0, f_pagey = Num 0,
    f_parent = Some (1, 1), f_absX = Undefined, f_absY = Undefined\<rparr>"
  by (simp add: sibling_registry_def frame_details_def upsert_def match_subframe_def
        set_geometry_def empty_info_def)

lemma nested_has_parent:
  "filter (has_parent nested_registry) nested_frames = [(2, 1), (3, 1), (4, 1)]"
  by (simp add: nested_frames_def has_parent_def nested_1 nested_2 nested_3 nested_4 empty_info_def)

lemma nested_written_2: "written nested_registry (set nested_frames) (2, 1) = Some
   \<lparr>f_id = (2, 1), f_url = ''a'', f_x = Num 100, f_y = Num 0, f_width = Num 500, f_height = Num 400,
    f_usableWidth = Num 500, f_usableHeight = Num 400, f_pagex = Num 0, f_pagey = Num 0,
    f_parent = Some (1, 1), f_absX = Num 100, f_absY = Num 0\<rparr>"
  by (simp add: written_def nested_frames_def nested_1 nested_2 empty_info_def lookup_by_record_def)

lemma nested_written_3: "written nested_registry (set nested_frames) (3, 1) = Some
   \<lparr>f_id = (3, 1), f_url = ''b'', f_x = Num 50, f_y = Num 0, f_width = Num 300, f_height = Num 300,
    f_usableWidth = Num 300, f_usableHeight = Num 300, f_pagex = Num 0, f_pagey = Num 0,
    f_parent = Some (2, 1), f_absX = Num 150, f_absY = Num 0\<rparr>"
  by (simp add: written_def nested_frames_def nested_2 nested_3 lookup_by_record_def)

lemma nested_written_4: "written nested_registry (set nested_frames) (4, 1) = Some
   \<lparr>f_id = (4, 1), f_url = ''c'', f_x = Num 10, f_y = Num 0, f_width = Num 30, f_height = Num 30,
    f_usableWidth = Num 30, f_usableHeight = Num 30, f_pagex = Num 0, f_pagey = Num 0,
    f_parent = Some (3, 1), f_absX = Num 60, f_absY = Num 0\<rparr>"
  by (simp add: written_def nested_frames_def nested_3 nested_4 lookup_by_record_def)

lemma nested_hit_70:
  "snd (findRelevantSubFrame nested_registry (Some nested_frames) 70 5) = Some
   \<lparr>f_id = (4, 1), f_url = ''c'', f_x = Num 10, f_y = Num 0, f_width = Num 30, f_height = Num 30,
    f_usableWidth = Num 30, f_usableHeight = Num 30, f_pagex = Num 0, f_pagey = Num 0,
    f_parent = Some (3, 1), f_absX = Num 60, f_absY = Num 0\<rparr>"
  by (simp add: findRelevantSubFrame_written nested_has_parent nested_written_2 nested_written_3
        nested_written_4 contains_point_def)

lemma nested_hit_120:
  "snd (findRelevantSubFrame nested_registry (Some nested_frames) 120 5) = Some
   \<lparr>f_id = (2, 1), f_url = ''a'', f_x = Num 100, f_y = Num 0, f_width = Num 500, f_height = Num 400,
    f_usableWidth = Num 500, f_usableHeight = Num 400, f_pagex = Num 0, f_pagey = Num 0,
    f_parent = Some (1, 1), f_absX = Num 100, f_absY = Num 0\<rparr>"
  by (simp add: findRelevantSubFrame_written nested_has_parent nested_written_2 nested_written_3
        nested_written_4 contains_point_def)

text \<open>
  C1. On the nested page the resolver places frame \<open>(4, 1)\<close> at \<open>(160, 0)\<close>, the sum of the
  local origins of the frame and of all its ancestors, while the hit-tester stores
  \<open>absX = 60\<close> for it: the frame's own origin plus its parent's, the chain not followed
  further. The two origins differ.
\<close>

theorem hit_test_origin_stops_at_parent:
  "resolveAbsolute nested_registry (4, 1) = Some (160, 0)
   \<and> map_option (\<lambda>r. (f_absX r, f_absY r))
        (fst (findRelevantSubFrame nested_registry (Some nested_frames) 70 5) (4, 1))
     = Some (Num 60, Num 0)"
  by (simp add: nested_resolve_4 findRelevantSubFrame_written nested_written_4)

text \<open>
  C5. On the nested page the hit-tester returns frame \<open>(4, 1)\<close>, of size \<open>30 \<times> 30\<close>, for the
  point \<open>(70, 5)\<close>, although the frame's window-absolute origin is \<open>(160, 0)\<close>: the point lies
  to the left of the frame's absolute bounds.
\<close>

theorem hit_outside_absolute_bounds:
  "map_option (\<lambda>r. (f_id r, f_width r, f_height r))
     (snd (findRelevantSubFrame nested_registry (Some nested_frames) 70 5))
     = Some ((4, 1), Num 30, Num 30)
   \<and> resolveAbsolute nested_registry (4, 1) = Some (160, 0)
   \<and> \<not> (160 < (70 :: int))"
  by (simp add: nested_resolve_4 nested_hit_70)

section \<open>The dispatcher on a selection span\<close>

text \<open>
  C2. A \<^verbatim>\<open>selectionRequest\<close> whose start point \<open>(120, 5)\<close> hits frame \<open>(2, 1)\<close>, at absolute
  origin \<open>(100, 0)\<close>, is sent to that frame twice: first with start and end translated, then
  again with the start translated and the end point \<open>(130, 9)\<close> as it came.
\<close>

theorem selection_request_sent_twice:
  "map_sum id snd (action nested_registry (Some nested_frames) ''selectionRequest'' [120, 5, 130, 9])
     = Inr [FrameSend (2, 1) ''selectionRequest'' [Num 20, Num 5, Num 30, Num 9],
            FrameSend (2, 1) ''selectionRequest'' [Num 20, Num 5, Num 130, Num 9]]"
proof -
  obtain reg' where "findRelevantSubFrame nested_registry (Some nested_frames) 120 5 = (reg', Some
   \<lparr>f_id = (2, 1), f_url = ''a'', f_x = Num 100, f_y = Num 0, f_width = Num 500, f_height = Num 400,
    f_usableWidth = Num 500, f_usableHeight = Num 400, f_pagex = Num 0, f_pagey = Num 0,
    f_parent = Some (1, 1), f_absX = Num 100, f_absY = Num 0\<rparr>)"
    using nested_hit_120 by (cases "findRelevantSubFrame nested_registry (Some nested_frames) 120 5") simp
  then show ?thesis
    by (simp add: action_def send_to_subframe_def nested_frames_def opt_at_def)
qed

section \<open>Hit-testing mutates the registry\<close>

text \<open>
  C9. A call of \<^verbatim>\<open>findRelevantSubFrame\<close> whose frame enumeration succeeds leaves the registry
  with the same keys; the record of every enumerated frame that has a parent gets the
  \<^verbatim>\<open>absX\<close> and \<^verbatim>\<open>absY\<close> computed for it, and nothing else in it changes; every other record
  is left as it was.
\<close>

theorem hit_test_writes_abs:
  "fst (findRelevantSubFrame reg (Some frames) x y) fid =
     (case reg fid of
        None \<Rightarrow> None
      | Some info \<Rightarrow>
          (case f_parent info of
             None \<Rightarrow> Some info
           | Some pid \<Rightarrow>
               if fid \<in> set frames
               then Some (info\<lparr>f_absX := fst (abs_loop reg (reg pid) (f_x info) (f_y info)),
                               f_absY := snd (abs_loop reg (reg pid) (f_x info) (f_y info))\<rparr>)
               else Some info))"
  by (simp add: findRelevantSubFrame_written written_def)

theorem hit_test_writes_abs_witness:
  "nested_registry (4, 1) = Some
     \<lparr>f_id = (4, 1), f_url = ''c'', f_x = Num 10, f_y = Num 0, f_width = Num 30, f_height = Num 30,
      f_usableWidth = Num 30, f_usableHeight = Num 30, f_pagex = Num 0, f_pagey = Num 0,
      f_parent = Some (3, 1), f_absX = Undefined, f_absY = Undefined\<rparr>
   \<and> fst (findRelevantSubFrame nested_registry (Some nested_frames) 70 5) (4, 1) = Some
     \<lparr>f_id = (4, 1), f_url = ''c'', f_x = Num 10, f_y = Num 0, f_width = Num 30, f_height = Num 30,
      f_usableWidth = Num 30, f_usableHeight = Num 30, f_pagex = Num 0, f_pagey = Num 0,
      f_parent = Some (3, 1), f_absX = Num 60, f_absY = Num 0\<rparr>
   \<and> fst (findRelevantSubFrame nested_registry (Some nested_frames) 70 5) (1, 1)
       = nested_registry (1, 1)
   \<and> fst (findRelevantSubFrame nested_registry (Some [(1, 1), (2, 1)]) 70 5) (4, 1)
       = nested_registry (4, 1)"
proof -
  have a: "fst (findRelevantSubFrame nested_registry (Some nested_frames) 70 5) (4, 1) = Some
     \<lparr>f_id = (4, 1), f_url = ''c'', f_x = Num 10, f_y = Num 0, f_width = Num 30, f_height = Num 30,
      f_usableWidth = Num 30, f_usableHeight = Num 30, f_pagex = Num 0, f_pagey = Num 0,
      f_parent = Some (3, 1), f_absX = Num 60, f_absY = Num 0\<rparr>"
    using hit_test_writes_abs[of nested_registry nested_frames 70 5 "(4, 1)"]
    by (simp add: nested_4 nested_3 nested_frames_def lookup_by_record_def)
  have b: "fst (findRelevantSubFrame nested_registry (Some nested_frames) 70 5) (1, 1)
       = nested_registry (1, 1)"
    using hit_test_writes_abs[of nested_registry nested_frames 70 5 "(1, 1)"]
    by (simp add: nested_1 empty_info_def)
  have c: "fst (findRelevantSubFrame nested_registry (Some [(1, 1), (2, 1)]) 70 5) (4, 1)
       = nested_registry (4, 1)"
    using hit_test_writes_abs[of nested_registry "[(1, 1), (2, 1)]" 70 5 "(4, 1)"]
    by (simp add: nested_4)
  from a b c nested_4 show ?thesis by simp
qed

section \<open>The choice among the frames that pass the hit-tester's own test\<close>

text \<open>
  Among the enumerated frames with a parent whose stored \<^verbatim>\<open>absX\<close>, \<^verbatim>\<open>absY\<close> pass the tests of
  lines 1819-1820, the loop returns none when there is none, and otherwise a record \<open>rel\<close> such
  that every one before it is strictly wider and every one after it is at least as wide. A
  second call on the registry the first call left returns the same frame and leaves the same
  registry. This is about the stored origins only.
\<close>

lemma select_first_narrowest_stored:
  assumes "findRelevantSubFrame reg (Some frames) x y = (reg', res)"
  shows "(stored_candidates reg' (snd (absoluteFrames reg frames)) x y = [] \<longrightarrow> res = None)
       \<and> (stored_candidates reg' (snd (absoluteFrames reg frames)) x y \<noteq> [] \<longrightarrow>
            (\<exists>pre rel post w.
               stored_candidates reg' (snd (absoluteFrames reg frames)) x y = pre @ rel # post
             \<and> res = Some rel \<and> f_width rel = Num w
             \<and> (\<forall>p \<in> set pre. \<exists>v. f_width p = Num v \<and> w < v)
             \<and> (\<forall>q \<in> set post. \<exists>v. f_width q = Num v \<and> w \<le> v)))
       \<and> findRelevantSubFrame reg' (Some frames) x y = (reg', res)"
proof -
  let ?cs = "stored_candidates reg' (snd (absoluteFrames reg frames)) x y"
  from assms have reg': "reg' = written reg (set frames)"
    and res: "res = narrowest None ?cs"
    by (auto simp add: findRelevantSubFrame_written absoluteFrames_written select_frame_narrowest)
  have again: "findRelevantSubFrame reg' (Some frames) x y = (reg', res)"
    using assms
    by (simp add: findRelevantSubFrame_written reg' written_written has_parent_written)
  have empty: "?cs = [] \<longrightarrow> res = None" using res by simp
  have nonempty: "?cs \<noteq> [] \<longrightarrow>
            (\<exists>pre rel post w. ?cs = pre @ rel # post
             \<and> res = Some rel \<and> f_width rel = Num w
             \<and> (\<forall>p \<in> set pre. \<exists>v. f_width p = Num v \<and> w < v)
             \<and> (\<forall>q \<in> set post. \<exists>v. f_width q = Num v \<and> w \<le> v))"
  proof
    assume "?cs \<noteq> []"
    then obtain c cs where cs: "?cs = c # cs" by (cases ?cs) auto
    have "\<forall>k \<in> set (c # cs). \<exists>v. f_width k = Num v"
      using stored_candidates_widths[of reg' "snd (absoluteFrames reg frames)" x y] cs by simp
    from narrowest_from[OF this] res cs show "\<exists>pre rel post w. ?cs = pre @ rel # post
             \<and> res = Some rel \<and> f_width rel = Num w
             \<and> (\<forall>p \<in> set pre. \<exists>v. f_width p = Num v \<and> w < v)
             \<and> (\<forall>q \<in> set post. \<exists>v. f_width q = Num v \<and> w \<le> v)"
      by simp
  qed
  from empty nonempty again show ?thesis by (intro conjI)
qed

lemma sibling_written_2: "written sibling_registry (set sibling_frames) (2, 1) = Some
   \<lparr>f_id = (2, 1), f_url = ''left'', f_x = Num 100, f_y = Num 50,
    f_width = Num 300, f_height = Num 200,
    f_usableWidth = Num 300, f_usableHeight = Num 200, f_pagex = Num 0, f_pagey = Num 0,
    f_parent = Some (1, 1), f_absX = Num 100, f_absY = Num 50\<rparr>"
  by (simp add: written_def sibling_frames_def sibling_1 sibling_2 empty_info_def
        lookup_by_record_def)

lemma sibling_written_3: "written sibling_registry (set sibling_frames) (3, 1) = Some
   \<lparr>f_id = (3, 1), f_url = ''right'', f_x = Num 120, f_y = Num 50,
    f_width = Num 300, f_height = Num 200,
    f_usableWidth = Num 300, f_usableHeight = Num 200, f_pagex = Num 0, f_pagey = Num 0,
    f_parent = Some (1, 1), f_absX = Num 120, f_absY = Num 50\<rparr>"
  by (simp add: written_def sibling_frames_def sibling_1 sibling_3 empty_info_def
        lookup_by_record_def)

lemma sibling_has_parent:
  "filter (has_parent sibling_registry) sibling_frames = [(2, 1), (3, 1)]"
  by (simp add: sibling_frames_def has_parent_def sibling_1 sibling_2 sibling_3 empty_info_def)

lemma sibling_hit:
  "findRelevantSubFrame sibling_registry (Some sibling_frames) 150 60 =
     (written sibling_registry (set sibling_frames), Some
       \<lparr>f_id = (2, 1), f_url = ''left'', f_x = Num 100, f_y = Num 50,
        f_width = Num 300, f_height = Num 200,
        f_usableWidth = Num 300, f_usableHeight = Num 200, f_pagex = Num 0, f_pagey = Num 0,
        f_parent = Some (1, 1), f_absX = Num 100, f_absY = Num 50\<rparr>)"
  by (simp add: findRelevantSubFrame_written sibling_has_parent sibling_written_2
        sibling_written_3 contains_point_def)

lemma sibling_stored_candidates:
  "stored_candidates (written sibling_registry (set sibling_frames))
     (snd (absoluteFrames sibling_registry sibling_frames)) 150 60 =
     [\<lparr>f_id = (2, 1), f_url = ''left'', f_x = Num 100, f_y = Num 50,
        f_width = Num 300, f_height = Num 200,
        f_usableWidth = Num 300, f_usableHeight = Num 200, f_pagex = Num 0, f_pagey = Num 0,
        f_parent = Some (1, 1), f_absX = Num 100, f_absY = Num 50\<rparr>,
      \<lparr>f_id = (3, 1), f_url = ''right'', f_x = Num 120, f_y = Num 50,
        f_width = Num 300, f_height = Num 200,
        f_usableWidth = Num 300, f_usableHeight = Num 200, f_pagex = Num 0, f_pagey = Num 0,
        f_parent = Some (1, 1), f_absX = Num 120, f_absY = Num 50\<rparr>]"
  by (simp add: absoluteFrames_written sibling_has_parent stored_candidates_def
        List.map_filter_simps
        sibling_written_2 sibling_written_3 contains_point_def)

lemma select_first_narrowest_stored_siblings:
  "\<exists>left right.
     stored_candidates (written sibling_registry (set sibling_frames))
       (snd (absoluteFrames sibling_registry sibling_frames)) 150 60 = [left, right]
   \<and> f_id left = (2, 1) \<and> f_id right = (3, 1) \<and> f_width left = Num 300 \<and> f_width right = Num 300
   \<and> findRelevantSubFrame sibling_registry (Some sibling_frames) 150 60
       = (written sibling_registry (set sibling_frames), Some left)
   \<and> findRelevantSubFrame (written sibling_registry (set sibling_frames)) (Some sibling_frames)
         150 60
       = (written sibling_registry (set sibling_frames), Some left)"
  using select_first_narrowest_stored[OF sibling_hit] sibling_stored_candidates sibling_hit
  by simp


section \<open>The event translator\<close>

lemma translate_loop_None: "translate_loop reg fid None a b pid = Some (a, b, pid)"
  by (simp add: translate_loop.simps)

lemma translate_loop_Some:
  "translate_loop reg fid (Some p) a b pid =
     translate_loop reg fid (opt_parent (reg p)) (a + opt_or0 f_x (reg p))
       (b + opt_or0 f_y (reg p)) (case reg p of None \<Rightarrow> fid | Some parentInfo \<Rightarrow> f_id parentInfo)"
  by (subst translate_loop.simps) simp

lemma translate_loop_resolves:
  "resolve_loop reg parent a b = Some r \<Longrightarrow>
     \<exists>q. translate_loop reg fid parent a b pid = Some (fst r, snd r, q)"
proof (induction reg parent a b r arbitrary: pid rule: resolve_loop.raw_induct[rotated, consumes 1])
  case (1 resolve_loop' reg parent a b r)
  show ?case
  proof (cases parent)
    case None
    with 1(2) show ?thesis by (auto simp: translate_loop_None)
  next
    case (Some p)
    with 1(2) have "resolve_loop' reg (opt_parent (reg p)) (a + opt_or0 f_x (reg p))
        (b + opt_or0 f_y (reg p)) = Some r"
      by simp
    from 1(1)[OF this] show ?thesis using Some by (simp add: translate_loop_Some)
  qed
qed

lemma or_null_add:
  "or_null (js_add v n) =
     (case v of Num a \<Rightarrow> if a + n = 0 then None else Some (a + n) | _ \<Rightarrow> None)"
  by (cases v) simp_all

text \<open>
  C10. When the resolver returns the origin \<open>(fx, fy)\<close> of the frame, the translator returns
  an event whose \<open>x\<close> and \<open>y\<close> are the input position plus the origin, and each of
  \<open>startX\<close>, \<open>startY\<close>, \<open>endX\<close>, \<open>endY\<close> is \<^verbatim>\<open>null\<close> when the input field is absent and
  also when the field plus the origin is 0; otherwise it is the field plus the origin.
\<close>

theorem translate_span_null:
  assumes "resolveAbsolute reg frameId = Some (fx, fy)"
  shows "\<exists>ev. translateMouseEvent reg wcs frameId c = Some ev
           \<and> m_x ev = c_x c + fx \<and> m_y ev = c_y c + fy
           \<and> m_startX ev =
               (case c_startX c of Num v \<Rightarrow> if v + fx = 0 then None else Some (v + fx) | _ \<Rightarrow> None)
           \<and> m_startY ev =
               (case c_startY c of Num v \<Rightarrow> if v + fy = 0 then None else Some (v + fy) | _ \<Rightarrow> None)
           \<and> m_endX ev =
               (case c_endX c of Num v \<Rightarrow> if v + fx = 0 then None else Some (v + fx) | _ \<Rightarrow> None)
           \<and> m_endY ev =
               (case c_endY c of Num v \<Rightarrow> if v + fy = 0 then None else Some (v + fy) | _ \<Rightarrow> None)"
proof -
  from assms obtain q where
    "translate_loop reg frameId (opt_parent (reg frameId)) (opt_or0 f_x (reg frameId))
       (opt_or0 f_y (reg frameId)) frameId = Some (fx, fy, q)"
    using translate_loop_resolves[of reg "opt_parent (reg frameId)" "opt_or0 f_x (reg frameId)"
        "opt_or0 f_y (reg frameId)" "(fx, fy)" frameId frameId]
    by (auto simp: resolveAbsolute_def)
  then show ?thesis
    by (simp add: translateMouseEvent_def Let_def or_null_add)
qed

theorem translate_span_null_witness:
  "resolveAbsolute nested_registry (4, 1) = Some (160, 0)
   \<and> (\<exists>ev. translateMouseEvent nested_registry None (4, 1)
          \<lparr>c_x = 5, c_y = 7, c_startX = Num (- 160), c_startY = Num 3,
           c_endX = Undefined, c_endY = Num 0, c_frame = ''c'', c_rest = []\<rparr> = Some ev
        \<and> m_x ev = 165 \<and> m_y ev = 7 \<and> m_startX ev = None \<and> m_startY ev = Some 3
        \<and> m_endX ev = None \<and> m_endY ev = None)"
  using translate_span_null[OF nested_resolve_4, of None
          "\<lparr>c_x = 5, c_y = 7, c_startX = Num (- 160), c_startY = Num 3,
           c_endX = Undefined, c_endY = Num 0, c_frame = ''c'', c_rest = []\<rparr>"]
    nested_resolve_4
  by simp

section \<open>The link aggregator\<close>

lemma frameLinks_frameId: "\<forall>l \<in> set (frameLinks info frameId fx fy raw). k_frameId l = frameId"
  by (auto simp: frameLinks_def to_link_def)

lemma filter_own_frameLinks:
  "filter (\<lambda>l. k_frameId l = frameId) (frameLinks info frameId fx fy raw)
     = frameLinks info frameId fx fy raw"
  using frameLinks_frameId[of info frameId fx fy raw] by (simp add: filter_id_conv)

lemma filter_own_others:
  "filter (\<lambda>l. k_frameId l = frameId)
     (filter (\<lambda>l. k_frameId l \<noteq> frameId \<and> k_frameId l \<in> set ids) old) = []"
  by (simp add: filter_empty_conv)

text \<open>
  C7. Two \<^verbatim>\<open>follow-response\<close> reports of the same frame \<open>A\<close>, the resolver returning for both
  and the frame enumeration of the second succeeding: both calls return, and the entries of
  \<open>A\<close> in the list after the second call are exactly the batch of the second call.
\<close>

theorem merge_twice_keeps_second_batch:
  assumes "resolveAbsolute reg1 A = Some (x1, y1)" and "resolveAbsolute reg2 A = Some (x2, y2)"
  shows "\<exists>l1 n1 l2.
           follow_response reg1 l0 A raw1 live1 = Some (l1, n1)
         \<and> follow_response reg2 l1 A raw2 (Some ids) = Some (l2, FollowResponse l2)
         \<and> filter (\<lambda>l. k_frameId l = A) l2 = frameLinks (reg2 A) A x2 y2 raw2"
proof -
  from assms(1) obtain l1 n1 where first: "follow_response reg1 l0 A raw1 live1 = Some (l1, n1)"
    by (cases live1) (simp_all add: follow_response_def Let_def)
  let ?l2 = "filter (\<lambda>l. k_frameId l \<noteq> A \<and> k_frameId l \<in> set ids) l1
               @ frameLinks (reg2 A) A x2 y2 raw2"
  from assms(2) have second: "follow_response reg2 l1 A raw2 (Some ids) = Some (?l2, FollowResponse ?l2)"
    by (simp add: follow_response_def Let_def)
  have "filter (\<lambda>l. k_frameId l = A) ?l2 = frameLinks (reg2 A) A x2 y2 raw2"
    by (simp only: filter_append filter_own_others filter_own_frameLinks append_Nil)
  with first second show ?thesis by blast
qed

theorem merge_twice_keeps_second_batch_witness:
  "\<exists>l1 n1 l2.
     follow_response nested_registry [] (4, 1) [\<lparr>l_x = 1, l_y = 2, l_rest = ''one''\<rparr>]
       (Some nested_frames) = Some (l1, n1)
   \<and> follow_response nested_registry l1 (4, 1) [\<lparr>l_x = 3, l_y = 4, l_rest = ''two''\<rparr>]
       (Some nested_frames) = Some (l2, FollowResponse l2)
   \<and> filter (\<lambda>l. k_frameId l = (4, 1)) l2
       = [to_link (nested_registry (4, 1)) (4, 1) 160 0 \<lparr>l_x = 3, l_y = 4, l_rest = ''two''\<rparr>]"
  using merge_twice_keeps_second_batch[OF nested_resolve_4 nested_resolve_4,
          of "[]" "[\<lparr>l_x = 1, l_y = 2, l_rest = ''one''\<rparr>]" "Some nested_frames"
             "[\<lparr>l_x = 3, l_y = 4, l_rest = ''two''\<rparr>]" nested_frames]
  by (simp add: frameLinks_def in_usable_def to_link_def nested_4 opt_fld_def)

lemma clipped_top: "clipped_registry (1, 1) = Some (empty_info (1, 1) ''top'')"
  by (simp add: clipped_registry_def frame_details_def upsert_def match_subframe_def
        set_geometry_def empty_info_def)

lemma clipped_resolve: "resolveAbsolute clipped_registry (2, 1) = Some (100, 50)"
  by (simp add: resolveAbsolute_def clipped_child clipped_top opt_parent_def opt_or0_def
        resolve_loop_None resolve_loop_Some empty_info_def)

text \<open>
  C3, as stated, fails: in the clipped frame, whose usable rectangle is \<open>250 \<times> 200\<close>, a link
  at the local position \<open>(-5, 10)\<close> lies outside the rectangle and is kept.
\<close>

theorem clipped_link_left_of_frame_counterexample:
  "opt_fld f_usableWidth (clipped_registry (2, 1)) = Num 250
   \<and> opt_fld f_usableHeight (clipped_registry (2, 1)) = Num 200
   \<and> spec_outside_usable 250 200 (- 5) 10
   \<and> map_option fst
        (follow_response clipped_registry [] (2, 1) [\<lparr>l_x = - 5, l_y = 10, l_rest = ''a''\<rparr>]
           (Some [(1, 1), (2, 1)]))
       = Some [to_link (clipped_registry (2, 1)) (2, 1) 100 50
                 \<lparr>l_x = - 5, l_y = 10, l_rest = ''a''\<rparr>]"
  by (simp add: follow_response_def clipped_resolve frameLinks_def in_usable_def to_link_def
        clipped_child opt_fld_def spec_outside_usable_def Let_def)

text \<open>
  C3, amended. The batch appended for a frame is the translation of the links kept. When both
  usable dimensions of the frame are registered and not 0, a link is kept exactly when its
  local \<open>x\<close> is below the usable width and its local \<open>y\<close> below the usable height: only the
  right and bottom edges are tested. When a usable dimension is absent, every link is kept.
  A kept link has its local position plus the resolved origin of the frame as absolute
  position.
\<close>

theorem follow_response_clips_right_bottom:
  assumes "resolveAbsolute reg frameId = Some (frameX, frameY)"
  shows "\<exists>kept merged.
           follow_response reg allLinks frameId rawLinks (Some live)
             = Some (merged, FollowResponse merged)
         \<and> merged =
             filter (\<lambda>l. k_frameId l \<noteq> frameId \<and> k_frameId l \<in> set live) allLinks
             @ map (to_link (reg frameId) frameId frameX frameY) kept
         \<and> (\<forall>uw uh. opt_fld f_usableWidth (reg frameId) = Num uw \<longrightarrow>
                     opt_fld f_usableHeight (reg frameId) = Num uh \<longrightarrow> uw \<noteq> 0 \<longrightarrow> uh \<noteq> 0 \<longrightarrow>
                     kept = filter (\<lambda>l. l_x l < uw \<and> l_y l < uh) rawLinks)
         \<and> (opt_fld f_usableWidth (reg frameId) = Undefined
              \<or> opt_fld f_usableHeight (reg frameId) = Undefined \<longrightarrow> kept = rawLinks)
         \<and> (\<forall>l \<in> set kept.
               k_x (to_link (reg frameId) frameId frameX frameY l) = l_x l + frameX
             \<and> k_y (to_link (reg frameId) frameId frameX frameY l) = l_y l + frameY
             \<and> k_xInFrame (to_link (reg frameId) frameId frameX frameY l) = l_x l
             \<and> k_yInFrame (to_link (reg frameId) frameId frameX frameY l) = l_y l)"
proof -
  let ?batch = "frameLinks (reg frameId) frameId frameX frameY rawLinks"
  let ?merged = "filter (\<lambda>l. k_frameId l \<noteq> frameId \<and> k_frameId l \<in> set live) allLinks @ ?batch"
  let ?kept = "filter (\<lambda>l. in_usable (to_link (reg frameId) frameId frameX frameY l)) rawLinks"
  have batch: "?batch = map (to_link (reg frameId) frameId frameX frameY) ?kept"
    by (simp add: frameLinks_def filter_map comp_def)
  from assms have run: "follow_response reg allLinks frameId rawLinks (Some live)
                          = Some (?merged, FollowResponse ?merged)"
    by (simp add: follow_response_def Let_def)
  have clip: "\<forall>uw uh. opt_fld f_usableWidth (reg frameId) = Num uw \<longrightarrow>
                     opt_fld f_usableHeight (reg frameId) = Num uh \<longrightarrow> uw \<noteq> 0 \<longrightarrow> uh \<noteq> 0 \<longrightarrow>
                     ?kept = filter (\<lambda>l. l_x l < uw \<and> l_y l < uh) rawLinks"
    by (simp add: in_usable_def to_link_def conj_commute)
  have unreg: "opt_fld f_usableWidth (reg frameId) = Undefined
              \<or> opt_fld f_usableHeight (reg frameId) = Undefined \<longrightarrow> ?kept = rawLinks"
    by (auto simp add: in_usable_def to_link_def)
  have coords: "\<forall>l \<in> set ?kept.
               k_x (to_link (reg frameId) frameId frameX frameY l) = l_x l + frameX
             \<and> k_y (to_link (reg frameId) frameId frameX frameY l) = l_y l + frameY
             \<and> k_xInFrame (to_link (reg frameId) frameId frameX frameY l) = l_x l
             \<and> k_yInFrame (to_link (reg frameId) frameId frameX frameY l) = l_y l"
    by (simp add: to_link_def)
  from run batch clip unreg coords show ?thesis
    by - (rule exI[of _ ?kept], rule exI[of _ ?merged], simp only: simp_thms)
qed

theorem follow_response_clips_right_bottom_witness:
  "\<exists>merged.
     follow_response clipped_registry [] (2, 1)
       [\<lparr>l_x = - 5, l_y = 10, l_rest = ''a''\<rparr>, \<lparr>l_x = 240, l_y = 10, l_rest = ''b''\<rparr>,
        \<lparr>l_x = 260, l_y = 10, l_rest = ''c''\<rparr>, \<lparr>l_x = 10, l_y = 200, l_rest = ''d''\<rparr>]
       (Some [(1, 1), (2, 1)]) = Some (merged, FollowResponse merged)
   \<and> map k_rest merged = [''a'', ''b''] \<and> map k_x merged = [95, 340] \<and> map k_y merged = [60, 60]"
  using follow_response_clips_right_bottom[OF clipped_resolve, of "[]"
          "[\<lparr>l_x = - 5, l_y = 10, l_rest = ''a''\<rparr>, \<lparr>l_x = 240, l_y = 10, l_rest = ''b''\<rparr>,
            \<lparr>l_x = 260, l_y = 10, l_rest = ''c''\<rparr>, \<lparr>l_x = 10, l_y = 200, l_rest = ''d''\<rparr>]"
          "[(1, 1), (2, 1)]"]
  by (auto simp add: clipped_child opt_fld_def to_link_def)


section \<open>The hit-tester passes over the narrowest frame\<close>

lemma nested_hit_165:
  "snd (findRelevantSubFrame nested_registry (Some nested_frames) 165 5) = Some
   \<lparr>f_id = (3, 1), f_url = ''b'', f_x = Num 50, f_y = Num 0, f_width = Num 300, f_height = Num 300,
    f_usableWidth = Num 300, f_usableHeight = Num 300, f_pagex = Num 0, f_pagey = Num 0,
    f_parent = Some (2, 1), f_absX = Num 150, f_absY = Num 0\<rparr>"
  by (simp add: findRelevantSubFrame_written nested_has_parent nested_written_2 nested_written_3
        nested_written_4 contains_point_def)

lemma nested_spec_candidate_4: "spec_candidate nested_registry (4, 1) 165 5"
  unfolding spec_candidate_def nested_resolve_4 nested_4 by simp

lemma nested_spec_candidate_3: "spec_candidate nested_registry (3, 1) 165 5"
  unfolding spec_candidate_def nested_resolve_3 nested_3 by simp

text \<open>
  C8. On the nested page, frame \<open>(4, 1)\<close>, of width \<open>30\<close> and at the window-absolute origin
  \<open>(160, 0)\<close>, strictly contains the point \<open>(165, 5)\<close>, and so does frame \<open>(3, 1)\<close>, of width
  \<open>300\<close>. The hit-tester returns \<open>(3, 1)\<close>: not a candidate of smallest width.
\<close>

theorem hit_returns_wider_frame:
  "spec_candidate nested_registry (4, 1) 165 5
   \<and> spec_candidate nested_registry (3, 1) 165 5
   \<and> map_option f_width (nested_registry (4, 1)) = Some (Num 30)
   \<and> map_option (\<lambda>r. (f_id r, f_width r))
        (snd (findRelevantSubFrame nested_registry (Some nested_frames) 165 5))
     = Some ((3, 1), Num 300)"
  by (simp add: nested_spec_candidate_4 nested_spec_candidate_3 nested_hit_165 nested_4)

end
